theory Spec2Isabelle
  imports Main "HOL-Library.Word"
begin

unbundle bit_operations_syntax

section \<open>Go values used by the auth service\<close>

text \<open>
  The service under study is package \<open>auth\<close> (AuthenticateUser, AuthenticateSession,
  CreateSession, InvalidateSessions and the two key builders). Go's \<open>uint\<close> and \<open>int\<close>
  are taken at 64 bits. A \<open>uuid.UUID\<close> is a \<open>[16]byte\<close>; it is kept as a list of bytes.
  Go strings are byte strings, as HOL's \<open>string\<close> is.
\<close>

type_synonym uint = "64 word"
type_synonym UUID = "8 word list"

datatype err =
    ErrInvalidSessionToken  \<comment> \<open>\<open>auth.ErrInvalidSessionToken\<close>\<close>
  | ErrWrongPassword        \<comment> \<open>\<open>auth.ErrWrongPassword\<close>\<close>
  | ErrUserNotFound         \<comment> \<open>\<open>ErrUserNotFound\<close> of the users package, named in the Service interface\<close>
  | RedisNil                \<comment> \<open>\<open>redis.Nil\<close>: the reply to a read of an absent key\<close>
  | WrongType               \<comment> \<open>the server's WRONGTYPE error reply\<close>
  | WrongArity              \<comment> \<open>the server's "wrong number of arguments" error reply\<close>
  | CantMarshal             \<comment> \<open>the client's "redis: can't marshal T" error\<close>
  | ErrSyntax               \<comment> \<open>\<open>strconv.ErrSyntax\<close> inside a \<open>*strconv.NumError\<close>\<close>
  | ErrRange                \<comment> \<open>\<open>strconv.ErrRange\<close> inside a \<open>*strconv.NumError\<close>\<close>
  | External string         \<comment> \<open>any failure of the environment: connectivity, entropy, a collaborator\<close>

subsection \<open>Decimal text of integers (\<open>%d\<close>, \<open>strconv\<close>)\<close>

definition digit_char :: "nat \<Rightarrow> char" where
  "digit_char d = ''0123456789'' ! d"

function format_uint :: "nat \<Rightarrow> string" where
  "format_uint n = (if n < 10 then [digit_char n] else format_uint (n div 10) @ [digit_char (n mod 10)])"
  by pat_completeness auto
termination
  by (relation "measure id") auto

declare format_uint.simps [simp del]

definition is_digit :: "char \<Rightarrow> bool" where
  "is_digit c = (48 \<le> (of_char c :: nat) \<and> (of_char c :: nat) \<le> 57)"

definition digits_value :: "string \<Rightarrow> nat" where
  "digits_value ds = foldl (\<lambda>a c. 10 * a + (of_char c - 48)) 0 ds"

text \<open>
  The loop of \<open>strconv.ParseUint\<close> in base 10 at 64 bits, reading left to right with the
  value so far in \<open>n\<close>: a byte that is not a digit is a syntax error; a value that no
  longer fits 64 bits is a range error with the largest value. Whichever comes first in
  the string decides.
\<close>

fun parse_digits :: "nat \<Rightarrow> string \<Rightarrow> nat \<times> err option" where
  "parse_digits n [] = (n, None)"
| "parse_digits n (c # cs) =
     (if is_digit c then
        (if (2 ^ 64 - 1) div 10 + 1 \<le> n then (2 ^ 64 - 1, Some ErrRange)
         else if 2 ^ 64 - 1 < n * 10 + (of_char c - 48) then (2 ^ 64 - 1, Some ErrRange)
         else parse_digits (n * 10 + (of_char c - 48)) cs)
      else (0, Some ErrSyntax))"

text \<open>
  \<open>strconv.Atoi\<close> (its short-string path gives the same results as \<open>ParseInt(s, 10, 0)\<close>):
  an optional sign, then one or more decimal digits; the value has to fit Go's \<open>int\<close>.
  A syntax error returns 0, a range error the nearest bound.
\<close>

definition Atoi :: "string \<Rightarrow> int \<times> err option" where
  "Atoi s =
     (let neg = (case s of [] \<Rightarrow> False | c # _ \<Rightarrow> c = CHR ''-'');
          ds = (case s of [] \<Rightarrow> [] | c # r \<Rightarrow> if c = CHR ''+'' then r else if c = CHR ''-'' then r else s);
          (un, e) = parse_digits 0 ds
      in if ds = [] then (0, Some ErrSyntax)
         else if e = Some ErrSyntax then (0, Some ErrSyntax)
         else if neg then (if 2 ^ 63 < un then (- (2 ^ 63), Some ErrRange) else (- int un, None))
         else (if 2 ^ 63 \<le> un then (2 ^ 63 - 1, Some ErrRange) else (int un, None)))"

subsection \<open>UUID text and binary forms (gofrs/uuid)\<close>

definition hextable :: string where
  "hextable = ''0123456789abcdef''"

definition hex_byte :: "8 word \<Rightarrow> string" where
  "hex_byte v = [hextable ! unat (drop_bit 4 v), hextable ! unat (v AND 0x0f)]"

definition hex_Encode :: "8 word list \<Rightarrow> string" where
  "hex_Encode src = concat (map hex_byte src)"

text \<open>
  \<open>UUID.String()\<close>: the canonical form xxxxxxxx-xxxx-xxxx-xxxx-xxxxxxxxxxxx, built from
  the slices \<open>u[0:4]\<close>, \<open>u[4:6]\<close>, \<open>u[6:8]\<close>, \<open>u[8:10]\<close> and \<open>u[10:]\<close>.
\<close>

definition UUID_String :: "UUID \<Rightarrow> string" where
  "UUID_String u =
     hex_Encode (take 4 u) @ ''-'' @ hex_Encode (take 2 (drop 4 u)) @ ''-'' @
     hex_Encode (take 2 (drop 6 u)) @ ''-'' @ hex_Encode (take 2 (drop 8 u)) @ ''-'' @
     hex_Encode (drop 10 u)"

text \<open>\<open>UUID.MarshalBinary()\<close> returns \<open>u.Bytes()\<close>: the 16 raw bytes.\<close>

definition UUID_MarshalBinary :: "UUID \<Rightarrow> string" where
  "UUID_MarshalBinary u = map (\<lambda>b. char_of (unat b)) u"

subsection \<open>Key builders\<close>

text \<open>\<open>fmt.Sprintf("session:%s:user.id", sessionKey)\<close>\<close>

definition sessionRedisKey :: "string \<Rightarrow> string" where
  "sessionRedisKey sessionKey = ''session:'' @ sessionKey @ '':user.id''"

text \<open>\<open>fmt.Sprintf("user:%d:session.keys", userId)\<close>\<close>

definition sessionInvertedIndexRedisKey :: "uint \<Rightarrow> string" where
  "sessionInvertedIndexRedisKey userId = ''user:'' @ format_uint (unat userId) @ '':session.keys''"

section \<open>The Redis client as the service uses it\<close>

text \<open>
  The store is the external Redis server reached through the go-redis client. Its state
  is a map from keys to entries; an entry is a string or a set of strings together with an
  optional expiry deadline. The clock \<open>now\<close> and the deadlines count milliseconds.
  \<open>calls\<close> records every client method the service invoked, in order, with the handle it
  was invoked on and the Go arguments it was given.
\<close>

datatype rval = RString string | RSet "string set"

type_synonym entry = "rval \<times> nat option"

text \<open>
  A command argument is a Go value passed as \<open>interface{}\<close>. The service passes a string,
  a \<open>uint\<close>, a \<open>uuid.UUID\<close> and a \<open>*[]string\<close>.
\<close>

datatype arg = AString string | AUint uint | AUUID UUID | APtrStrings "string list"

datatype handle = OnClient | OnTx

datatype call =
    CallGet string
  | CallSet string arg int
  | CallSAdd string "arg list"
  | CallGetSet string arg
  | CallDel "string list"
  | CallWatch "string list"

record redis =
  db :: "string \<rightharpoonup> entry"
  now :: nat
  calls :: "(handle \<times> call) list"

definition issue :: "handle \<Rightarrow> call \<Rightarrow> redis \<Rightarrow> redis" where
  "issue h c r = r\<lparr>calls := calls r @ [(h, c)]\<rparr>"

text \<open>The passing of time between two operations: the environment's step.\<close>

definition advance :: "nat \<Rightarrow> redis \<Rightarrow> redis" where
  "advance d r = r\<lparr>now := now r + d\<rparr>"

text \<open>What a command sees under a key: an entry whose deadline has passed is gone.\<close>

definition live_entry :: "redis \<Rightarrow> string \<Rightarrow> entry option" where
  "live_entry r k =
     (case db r k of
        None \<Rightarrow> None
      | Some (v, None) \<Rightarrow> Some (v, None)
      | Some (v, Some d) \<Rightarrow> if d \<le> now r then None else Some (v, Some d))"

definition live :: "redis \<Rightarrow> string \<Rightarrow> rval option" where
  "live r k = map_option fst (live_entry r k)"

text \<open>
  The client's argument writer (\<open>proto.Writer.WriteArg\<close>): a string is sent as it is, an
  unsigned integer in decimal, a value implementing \<open>encoding.BinaryMarshaler\<close> (as
  \<open>uuid.UUID\<close> does) as the bytes of \<open>MarshalBinary()\<close>; any other type, a pointer to a slice
  among them, is refused with "can't marshal".
\<close>

fun WriteArg :: "arg \<Rightarrow> err + string" where
  "WriteArg (AString s) = Inr s"
| "WriteArg (AUint n) = Inr (format_uint (unat n))"
| "WriteArg (AUUID u) = Inr (UUID_MarshalBinary u)"
| "WriteArg (APtrStrings xs) = Inl CantMarshal"

fun WriteArgs :: "arg list \<Rightarrow> err + string list" where
  "WriteArgs [] = Inr []"
| "WriteArgs (a # as) =
     (case WriteArg a of
        Inl e \<Rightarrow> Inl e
      | Inr s \<Rightarrow> (case WriteArgs as of Inl e \<Rightarrow> Inl e | Inr ss \<Rightarrow> Inr (s # ss)))"

subsection \<open>Durations and expiry\<close>

definition Millisecond :: int where "Millisecond = 1000000"
definition Second :: int where "Second = 1000 * Millisecond"
definition Hour :: int where "Hour = 3600 * Second"
definition KeepTTL :: int where "KeepTTL = - 1"

text \<open>
  \<open>Set\<close> sends a positive expiration as whole seconds (\<open>EX\<close>) when it is a multiple of a
  second, and as milliseconds (\<open>PX\<close>) otherwise, a positive duration under one
  millisecond counting as one.
\<close>

definition ttl_ms :: "int \<Rightarrow> nat" where
  "ttl_ms dur =
     (if Second \<le> dur \<and> dur mod Second = 0 then nat (dur div Second) * 1000
      else if dur < Millisecond then 1
      else nat (dur div Millisecond))"

subsection \<open>Commands\<close>

text \<open>
  Every method takes \<open>fault\<close>: \<open>Some m\<close> when the environment makes this call fail
  (connection refused, timeout, cancelled context), \<open>None\<close> when the command goes through.
  A failed call leaves the store as it was.
\<close>

definition Redis_Get :: "handle \<Rightarrow> string option \<Rightarrow> string \<Rightarrow> redis \<Rightarrow> (string \<times> err option) \<times> redis" where
  "Redis_Get h fault key r0 =
     (let r = issue h (CallGet key) r0
      in case fault of
           Some m \<Rightarrow> (([], Some (External m)), r)
         | None \<Rightarrow>
             (case live r key of
                None \<Rightarrow> (([], Some RedisNil), r)
              | Some (RString v) \<Rightarrow> ((v, None), r)
              | Some (RSet s) \<Rightarrow> (([], Some WrongType), r)))"

text \<open>\<open>StringCmd.Int()\<close>: the command's error if it has one, else \<open>strconv.Atoi\<close> of the value.\<close>

definition StringCmd_Int :: "string \<times> err option \<Rightarrow> int \<times> err option" where
  "StringCmd_Int cmd = (case snd cmd of Some e \<Rightarrow> (0, Some e) | None \<Rightarrow> Atoi (fst cmd))"

definition Redis_Set :: "handle \<Rightarrow> string option \<Rightarrow> string \<Rightarrow> arg \<Rightarrow> int \<Rightarrow> redis \<Rightarrow> err option \<times> redis" where
  "Redis_Set h fault key val expiration r0 =
     (let r = issue h (CallSet key val expiration) r0
      in case fault of
           Some m \<Rightarrow> (Some (External m), r)
         | None \<Rightarrow>
             (case WriteArg val of
                Inl e \<Rightarrow> (Some e, r)
              | Inr v \<Rightarrow>
                  (let deadline =
                         (if 0 < expiration then Some (now r + ttl_ms expiration)
                          else if expiration = KeepTTL then
                            (case live_entry r key of None \<Rightarrow> None | Some (_, d) \<Rightarrow> d)
                          else None)
                   in (None, r\<lparr>db := (db r)(key \<mapsto> (RString v, deadline))\<rparr>))))"

definition Redis_SAdd :: "handle \<Rightarrow> string option \<Rightarrow> string \<Rightarrow> arg list \<Rightarrow> redis \<Rightarrow> err option \<times> redis" where
  "Redis_SAdd h fault key members r0 =
     (let r = issue h (CallSAdd key members) r0
      in case fault of
           Some m \<Rightarrow> (Some (External m), r)
         | None \<Rightarrow>
             (case WriteArgs members of
                Inl e \<Rightarrow> (Some e, r)
              | Inr ms \<Rightarrow>
                  (if ms = [] then (Some WrongArity, r)
                   else case live_entry r key of
                          None \<Rightarrow> (None, r\<lparr>db := (db r)(key \<mapsto> (RSet (set ms), None))\<rparr>)
                        | Some (RSet s, d) \<Rightarrow> (None, r\<lparr>db := (db r)(key \<mapsto> (RSet (s \<union> set ms), d))\<rparr>)
                        | Some (RString v, d) \<Rightarrow> (Some WrongType, r))))"

text \<open>
  GETSET stores the new string under the key, dropping any expiry, and replies with the
  old string; the reply for an absent key is nil, which the client reports as
  \<open>redis.Nil\<close>.
\<close>

definition Redis_GetSet :: "handle \<Rightarrow> string option \<Rightarrow> string \<Rightarrow> arg \<Rightarrow> redis \<Rightarrow> (string \<times> err option) \<times> redis" where
  "Redis_GetSet h fault key val r0 =
     (let r = issue h (CallGetSet key val) r0
      in case fault of
           Some m \<Rightarrow> (([], Some (External m)), r)
         | None \<Rightarrow>
             (case WriteArg val of
                Inl e \<Rightarrow> (([], Some e), r)
              | Inr v \<Rightarrow>
                  (case live r key of
                     None \<Rightarrow> (([], Some RedisNil), r\<lparr>db := (db r)(key \<mapsto> (RString v, None))\<rparr>)
                   | Some (RString old) \<Rightarrow> ((old, None), r\<lparr>db := (db r)(key \<mapsto> (RString v, None))\<rparr>)
                   | Some (RSet s) \<Rightarrow> (([], Some WrongType), r))))"

definition Redis_Del :: "handle \<Rightarrow> string option \<Rightarrow> string list \<Rightarrow> redis \<Rightarrow> err option \<times> redis" where
  "Redis_Del h fault keys r0 =
     (let r = issue h (CallDel keys) r0
      in case fault of
           Some m \<Rightarrow> (Some (External m), r)
         | None \<Rightarrow>
             (if keys = [] then (Some WrongArity, r)
              else (None, r\<lparr>db := (\<lambda>k. if k \<in> set keys then None else db r k)\<rparr>)))"

text \<open>
  \<open>Client.Watch(ctx, fn, keys...)\<close> opens a transaction handle, sends WATCH only when
  \<open>keys\<close> is not empty, runs \<open>fn\<close> on the handle and returns what \<open>fn\<close> returns.
\<close>

definition Redis_Watch :: "string option \<Rightarrow> (handle \<Rightarrow> redis \<Rightarrow> err option \<times> redis) \<Rightarrow> string list \<Rightarrow> redis \<Rightarrow> err option \<times> redis" where
  "Redis_Watch fault fn keys r0 =
     (let r = issue OnClient (CallWatch keys) r0
      in if keys = [] then fn OnTx r
         else (case fault of Some m \<Rightarrow> (Some (External m), r) | None \<Rightarrow> fn OnTx r))"

section \<open>The service\<close>

subsection \<open>AuthenticateUser\<close>

text \<open>
  The user directory and \<open>User.ComparePassword\<close> belong to the users package and are
  parameters here. \<open>findUser\<close> is \<open>UsersService.FindUserByUsernameOrEmail\<close>: it returns a
  \<open>*User\<close> (\<open>None\<close> for nil) and an error. \<open>comparePassword\<close> is \<open>ComparePassword\<close> on that
  pointer; since the pointer may be nil, a call may panic instead of returning.
\<close>

record LoginDto =
  UsernameOrEmail :: string
  Password :: string

datatype 'a outcome = Returns 'a | Panics

definition AuthenticateUser ::
  "(string \<Rightarrow> 'u option \<times> err option) \<Rightarrow> ('u option \<Rightarrow> string \<Rightarrow> (bool \<times> err option) outcome) \<Rightarrow>
   LoginDto \<Rightarrow> ('u option \<times> err option) outcome" where
  "AuthenticateUser findUser comparePassword authUser =
     (let (user, err) = findUser (UsernameOrEmail authUser)
      in \<comment> \<open>\<open>if err != nil\<close> only logs; control continues with \<open>user\<close>\<close>
         case comparePassword user (Password authUser) of
           Panics \<Rightarrow> Panics
         | Returns (passwordMatch, err') \<Rightarrow>
             (case err' of
                Some e \<Rightarrow> Returns (None, Some e)
              | None \<Rightarrow>
                  if passwordMatch then Returns (user, None)
                  else Returns (None, Some ErrWrongPassword)))"

subsection \<open>AuthenticateSession\<close>

definition AuthenticateSession :: "string option \<Rightarrow> string \<Rightarrow> redis \<Rightarrow> (uint \<times> err option) \<times> redis" where
  "AuthenticateSession fault sessionKey r0 =
     (let redisKey = sessionRedisKey sessionKey;
          (cmd, r) = Redis_Get OnClient fault redisKey r0;
          (userId, err) = StringCmd_Int cmd
      in case err of
           Some e \<Rightarrow>
             if e = RedisNil then ((0, Some ErrInvalidSessionToken), r)
             else ((0, Some e), r)
         | None \<Rightarrow> ((word_of_int userId, None), r))"

subsection \<open>CreateSession\<close>

text \<open>
  \<open>newV4\<close> is what \<open>uuid.NewV4()\<close> returned; \<open>fw\<close>, \<open>fs\<close> and \<open>fa\<close> are the environment's
  faults for the WATCH, SET and SADD commands.
\<close>

definition keyDuration :: int where
  "keyDuration = Hour * 24 * 30"

definition CreateSession ::
  "UUID \<times> err option \<Rightarrow> string option \<Rightarrow> string option \<Rightarrow> string option \<Rightarrow> uint \<Rightarrow> redis \<Rightarrow>
   (string \<times> err option) \<times> redis" where
  "CreateSession newV4 fw fs fa userId r0 =
     (case newV4 of
        (sessionKey, Some e) \<Rightarrow> (([], Some e), r0)
      | (sessionKey, None) \<Rightarrow>
          (case Redis_Watch fw
                  (\<lambda>tx r.
                     case Redis_Set OnClient fs (sessionRedisKey (UUID_String sessionKey)) (AUint userId) keyDuration r of
                       (Some e, r1) \<Rightarrow> (Some e, r1)
                     | (None, r1) \<Rightarrow>
                         (case Redis_SAdd OnClient fa (sessionInvertedIndexRedisKey userId) [AUUID sessionKey] r1 of
                            (Some e, r2) \<Rightarrow> (Some e, r2)
                          | (None, r2) \<Rightarrow> (None, r2)))
                  [] r0 of
             (Some e, r') \<Rightarrow> (([], Some e), r')
           | (None, r') \<Rightarrow> ((UUID_String sessionKey, None), r')))"

subsection \<open>InvalidateSessions\<close>

text \<open>
  \<open>fg\<close> and \<open>fd\<close> are the environment's faults for the GETSET and DEL commands. The local
  slice \<open>sessionsSet\<close> is declared nil; only \<open>.Err()\<close> of the GetSet command is read, and
  nothing assigns to the slice before the loop.
\<close>

definition InvalidateSessions :: "string option \<Rightarrow> string option \<Rightarrow> uint \<Rightarrow> redis \<Rightarrow> err option \<times> redis" where
  "InvalidateSessions fg fd userId r0 =
     (let sessionsSet = ([] :: string list);
          redisKey = sessionInvertedIndexRedisKey userId
      in case Redis_GetSet OnClient fg redisKey (APtrStrings sessionsSet) r0 of
           ((_, Some e), r1) \<Rightarrow> (Some e, r1)
         | ((_, None), r1) \<Rightarrow>
             (let sessionsSet' = map sessionRedisKey sessionsSet;
                  keysToDelete = ([] @ sessionsSet') @ [redisKey]
              in case Redis_Del OnClient fd keysToDelete r1 of
                   (Some e, r2) \<Rightarrow> (Some e, r2)
                 | (None, r2) \<Rightarrow> (None, r2)))"

section \<open>Concrete inputs\<close>

text \<open>The UUID 2c816d07-9499-4907-8ea3-1785dfa0f9a0 and a store that holds nothing.\<close>

definition uuid1 :: UUID where
  "uuid1 = [0x2c, 0x81, 0x6d, 0x07, 0x94, 0x99, 0x49, 0x07, 0x8e, 0xa3, 0x17, 0x85, 0xdf, 0xa0, 0xf9, 0xa0]"

definition redis0 :: redis where
  "redis0 = \<lparr>db = Map.empty, now = 0, calls = []\<rparr>"

text \<open>The store once the SET of CreateSession has gone through: the state SADD runs on.\<close>

definition after_Set :: "UUID \<Rightarrow> uint \<Rightarrow> redis \<Rightarrow> redis" where
  "after_Set u userId r =
     (issue OnClient (CallSet (sessionRedisKey (UUID_String u)) (AUint userId) keyDuration)
        (issue OnClient (CallWatch []) r))
     \<lparr>db := (db r)(sessionRedisKey (UUID_String u) \<mapsto>
                 (RString (format_uint (unat userId)), Some (now r + 2592000000)))\<rparr>"

text \<open>The store after user 42 was given a session with token \<open>uuid1\<close> on the empty store.\<close>

definition redis1 :: redis where
  "redis1 = snd (CreateSession (uuid1, None) None None None 42 redis0)"

text \<open>
  A second UUID, 9f1c3e5a-7b2d-4c6e-8a90-b1d2e3f40516, and the store after user 42 was
  given a second session with it.
\<close>

definition uuid2 :: UUID where
  "uuid2 = [0x9f, 0x1c, 0x3e, 0x5a, 0x7b, 0x2d, 0x4c, 0x6e, 0x8a, 0x90, 0xb1, 0xd2, 0xe3, 0xf4, 0x05, 0x16]"

definition redis2 :: redis where
  "redis2 = snd (CreateSession (uuid2, None) None None None 42 redis1)"

section \<open>Decimal text: writing and reading back\<close>

lemma digit_char_code: "d < 10 \<Longrightarrow> (of_char (digit_char d) :: nat) = 48 + d"
proof -
  assume "d < 10"
  then have "d = 0 \<or> d = 1 \<or> d = 2 \<or> d = 3 \<or> d = 4 \<or> d = 5 \<or> d = 6 \<or> d = 7 \<or> d = 8 \<or> d = 9"
    by arith
  then show ?thesis
    by (elim disjE) (simp_all add: digit_char_def)
qed

lemma is_digit_digit_char: "d < 10 \<Longrightarrow> is_digit (digit_char d)"
  by (simp add: is_digit_def digit_char_code)

lemma format_uint_digits: "list_all is_digit (format_uint n)"
proof (induction n rule: format_uint.induct)
  case (1 n)
  show ?case
  proof (cases "n < 10")
    case True
    then show ?thesis by (simp add: format_uint.simps [of n] is_digit_digit_char)
  next
    case False
    with 1 show ?thesis by (simp add: format_uint.simps [of n] is_digit_digit_char)
  qed
qed

lemma format_uint_not_Nil: "format_uint n \<noteq> []"
  by (simp add: format_uint.simps [of n])

lemma digits_value_snoc: "digits_value (ds @ [c]) = 10 * digits_value ds + (of_char c - 48)"
  by (simp add: digits_value_def)

lemma digits_value_format_uint: "digits_value (format_uint n) = n"
proof (induction n rule: format_uint.induct)
  case (1 n)
  show ?case
  proof (cases "n < 10")
    case True
    then show ?thesis by (simp add: format_uint.simps [of n] digits_value_def digit_char_code)
  next
    case False
    with 1 show ?thesis by (simp add: format_uint.simps [of n] digits_value_snoc digit_char_code)
  qed
qed

lemma is_digit_not_sign: "is_digit c \<Longrightarrow> c \<noteq> CHR ''-'' \<and> c \<noteq> CHR ''+''"
  by (auto simp: is_digit_def)

lemma foldl_digits_ge: "(a :: nat) \<le> foldl (\<lambda>a c. 10 * a + (of_char c - 48)) a ds"
proof (induction ds arbitrary: a)
  case Nil
  show ?case by simp
next
  case (Cons c cs)
  have "a \<le> 10 * a + (of_char c - 48)" by simp
  also have "\<dots> \<le> foldl (\<lambda>a c. 10 * a + (of_char c - 48)) (10 * a + (of_char c - 48)) cs"
    by (rule Cons.IH)
  finally show ?case by simp
qed

text \<open>On digits whose value fits 64 bits the loop returns that value.\<close>

lemma parse_digits_value:
  "list_all is_digit ds \<Longrightarrow> foldl (\<lambda>a c. 10 * a + (of_char c - 48)) n ds < 2 ^ 64 \<Longrightarrow>
   parse_digits n ds = (foldl (\<lambda>a c. 10 * a + (of_char c - 48)) n ds, None)"
proof (induction ds arbitrary: n)
  case Nil
  show ?case by simp
next
  case (Cons c cs)
  let ?n1 = "10 * n + (of_char c - 48)"
  have dig: "is_digit c" and digs: "list_all is_digit cs"
    using Cons.prems(1) by simp_all
  have fin: "foldl (\<lambda>a c. 10 * a + (of_char c - 48)) ?n1 cs < 2 ^ 64"
    using Cons.prems(2) by simp
  have "?n1 \<le> foldl (\<lambda>a c. 10 * a + (of_char c - 48)) ?n1 cs"
    by (rule foldl_digits_ge)
  then have n1: "?n1 < 2 ^ 64" using fin by simp
  then have small: "\<not> (2 ^ 64 - 1) div 10 + 1 \<le> n" "\<not> 2 ^ 64 - 1 < n * 10 + (of_char c - 48)"
    by simp_all
  have "parse_digits n (c # cs) = parse_digits ?n1 cs"
    using dig small by (simp add: mult.commute)
  also have "\<dots> = (foldl (\<lambda>a c. 10 * a + (of_char c - 48)) ?n1 cs, None)"
    using digs fin by (rule Cons.IH)
  finally show ?case by simp
qed

text \<open>
  Reading back the decimal text of a 64-bit \<open>n\<close> with \<open>Atoi\<close> gives \<open>n\<close> when it fits a
  signed 64-bit integer and a range error otherwise.
\<close>

lemma Atoi_format_uint:
  assumes "n < 2 ^ 64"
  shows "Atoi (format_uint n) = (if n < 2 ^ 63 then (int n, None) else (2 ^ 63 - 1, Some ErrRange))"
proof -
  obtain c r where cr: "format_uint n = c # r"
    using format_uint_not_Nil [of n] by (cases "format_uint n") auto
  have dig: "list_all is_digit (c # r)"
    using format_uint_digits [of n] cr by simp
  then have "is_digit c" by simp
  then have ns: "c \<noteq> CHR ''-''" "c \<noteq> CHR ''+''"
    using is_digit_not_sign by blast+
  have val: "foldl (\<lambda>a c. 10 * a + (of_char c - 48)) 0 (c # r) = n"
    using digits_value_format_uint [of n] cr by (simp add: digits_value_def)
  have "parse_digits 0 (c # r) = (foldl (\<lambda>a c. 10 * a + (of_char c - 48)) 0 (c # r), None)"
    using dig assms unfolding val [symmetric] by (rule parse_digits_value)
  then have pd: "parse_digits 0 (c # r) = (n, None)"
    using val by simp
  have "Atoi (c # r) = (if n < 2 ^ 63 then (int n, None) else (2 ^ 63 - 1, Some ErrRange))"
    unfolding Atoi_def using ns pd by (simp add: Let_def del: parse_digits.simps)
  then show ?thesis using cr by simp
qed

lemma Atoi_error_kinds: "snd (Atoi s) = None \<or> snd (Atoi s) = Some ErrSyntax \<or> snd (Atoi s) = Some ErrRange"
  by (simp add: Atoi_def Let_def split: prod.splits)

lemma keys_differ [simp]:
  "sessionRedisKey t \<noteq> sessionInvertedIndexRedisKey userId"
  "sessionInvertedIndexRedisKey userId \<noteq> sessionRedisKey t"
  by (simp_all add: sessionRedisKey_def sessionInvertedIndexRedisKey_def)

section \<open>The store commands, case by case\<close>

lemma keyDuration_pos: "0 < keyDuration"
  by (simp add: keyDuration_def Hour_def Second_def Millisecond_def)

lemma ttl_keyDuration: "ttl_ms keyDuration = 2592000000"
  by (simp add: keyDuration_def Hour_def Second_def Millisecond_def ttl_ms_def)

lemma issue_simps [simp]:
  "db (issue h c r) = db r" "now (issue h c r) = now r" "calls (issue h c r) = calls r @ [(h, c)]"
  by (simp_all add: issue_def)

lemma live_entry_cong:
  "db r' k = db r k \<Longrightarrow> now r' = now r \<Longrightarrow> live_entry r' k = live_entry r k"
  by (simp add: live_entry_def split: option.splits prod.splits)

lemma live_entry_issue [simp]: "live_entry (issue h c r) k = live_entry r k"
  by (rule live_entry_cong) simp_all

lemma live_issue [simp]: "live (issue h c r) k = live r k"
  by (simp add: live_def)

lemma Redis_Set_fault:
  "Redis_Set h (Some m) key v e r = (Some (External m), issue h (CallSet key v e) r)"
  by (simp add: Redis_Set_def)

lemma Redis_Set_uint:
  "0 < e \<Longrightarrow> Redis_Set h None key (AUint n) e r =
     (None, (issue h (CallSet key (AUint n) e) r)
              \<lparr>db := (db r)(key \<mapsto> (RString (format_uint (unat n)), Some (now r + ttl_ms e)))\<rparr>)"
  by (simp add: Redis_Set_def)

lemma Redis_SAdd_fault:
  "Redis_SAdd h (Some m) key ms r = (Some (External m), issue h (CallSAdd key ms) r)"
  by (simp add: Redis_SAdd_def)

lemma Redis_SAdd_uuid:
  "Redis_SAdd h None key [AUUID u] r =
     (case live_entry r key of
        None \<Rightarrow> (None, (issue h (CallSAdd key [AUUID u]) r)\<lparr>db := (db r)(key \<mapsto> (RSet {UUID_MarshalBinary u}, None))\<rparr>)
      | Some (RSet s, d) \<Rightarrow> (None, (issue h (CallSAdd key [AUUID u]) r)\<lparr>db := (db r)(key \<mapsto> (RSet (insert (UUID_MarshalBinary u) s), d))\<rparr>)
      | Some (RString v, d) \<Rightarrow> (Some WrongType, issue h (CallSAdd key [AUUID u]) r))"
  by (simp add: Redis_SAdd_def split: option.splits prod.splits rval.splits)

text \<open>
  GETSET with a value the client can send: an absent key makes the client report
  \<open>redis.Nil\<close>, a key holding a set makes the server answer WRONGTYPE.
\<close>

lemma Redis_GetSet_absent:
  "live r key = None \<Longrightarrow> fst (Redis_GetSet h None key (AString v) r) = ([], Some RedisNil)"
  by (simp add: Redis_GetSet_def)

lemma Redis_GetSet_on_set:
  "live r key = Some (RSet s) \<Longrightarrow>
     Redis_GetSet h None key (AString v) r = (([], Some WrongType), issue h (CallGetSet key (AString v)) r)"
  by (simp add: Redis_GetSet_def)

section \<open>CreateSession, case by case\<close>

lemma after_Set_simps:
  "now (after_Set u userId r) = now r"
  "calls (after_Set u userId r) = calls r @ [(OnClient, CallWatch []),
      (OnClient, CallSet (sessionRedisKey (UUID_String u)) (AUint userId) keyDuration)]"
  "db (after_Set u userId r) = (db r)(sessionRedisKey (UUID_String u) \<mapsto>
                 (RString (format_uint (unat userId)), Some (now r + 2592000000)))"
  by (simp_all add: after_Set_def)

lemma live_entry_after_Set:
  "live_entry (after_Set u userId r) (sessionInvertedIndexRedisKey userId) =
     live_entry r (sessionInvertedIndexRedisKey userId)"
  by (intro live_entry_cong) (simp_all add: after_Set_simps)

lemma CreateSession_Set_fault:
  "CreateSession (u, None) fw (Some m) fa userId r =
     (([], Some (External m)),
      issue OnClient (CallSet (sessionRedisKey (UUID_String u)) (AUint userId) keyDuration)
        (issue OnClient (CallWatch []) r))"
  by (simp add: CreateSession_def Redis_Watch_def Redis_Set_fault)

lemma CreateSession_SAdd_fault:
  "CreateSession (u, None) fw None (Some m) userId r =
     (([], Some (External m)),
      issue OnClient (CallSAdd (sessionInvertedIndexRedisKey userId) [AUUID u]) (after_Set u userId r))"
  by (simp add: CreateSession_def Redis_Watch_def Redis_Set_uint [OF keyDuration_pos] Redis_SAdd_fault
      after_Set_def ttl_keyDuration)

lemma CreateSession_no_fault:
  "CreateSession (u, None) fw None None userId r =
     (let idx = sessionInvertedIndexRedisKey userId;
          ra = issue OnClient (CallSAdd idx [AUUID u]) (after_Set u userId r)
      in case live_entry r idx of
           None \<Rightarrow> ((UUID_String u, None),
                     ra\<lparr>db := (db (after_Set u userId r))(idx \<mapsto> (RSet {UUID_MarshalBinary u}, None))\<rparr>)
         | Some (RSet s, d) \<Rightarrow> ((UUID_String u, None),
                     ra\<lparr>db := (db (after_Set u userId r))(idx \<mapsto> (RSet (insert (UUID_MarshalBinary u) s), d))\<rparr>)
         | Some (RString v, d) \<Rightarrow> (([], Some WrongType), ra))"
proof -
  have unf: "CreateSession (u, None) fw None None userId r =
      (case Redis_SAdd OnClient None (sessionInvertedIndexRedisKey userId) [AUUID u] (after_Set u userId r) of
         (Some e, r2) \<Rightarrow> (([], Some e), r2)
       | (None, r2) \<Rightarrow> ((UUID_String u, None), r2))"
    by (simp add: CreateSession_def Redis_Watch_def Redis_Set_uint [OF keyDuration_pos] after_Set_def
        ttl_keyDuration split: prod.splits option.splits)
  show ?thesis
    unfolding unf Redis_SAdd_uuid live_entry_after_Set Let_def
    by (simp split: option.splits prod.splits rval.splits)
qed

section \<open>InvalidateSessions and AuthenticateSession, case by case\<close>

lemma InvalidateSessions_closed:
  "InvalidateSessions fg fd userId r =
     (Some (case fg of Some m \<Rightarrow> External m | None \<Rightarrow> CantMarshal),
      issue OnClient (CallGetSet (sessionInvertedIndexRedisKey userId) (APtrStrings [])) r)"
  by (simp add: InvalidateSessions_def Redis_GetSet_def split: option.splits)

lemma Atoi_not_Nil: "snd (Atoi s) \<noteq> Some RedisNil"
  using Atoi_error_kinds [of s] by auto

lemma AuthenticateSession_result:
  "fst (AuthenticateSession fault tok r) =
     (case fault of
        Some m \<Rightarrow> (0, Some (External m))
      | None \<Rightarrow>
          (case live r (sessionRedisKey tok) of
             None \<Rightarrow> (0, Some ErrInvalidSessionToken)
           | Some (RSet s) \<Rightarrow> (0, Some WrongType)
           | Some (RString v) \<Rightarrow>
               (case Atoi v of (n, None) \<Rightarrow> (word_of_int n, None) | (n, Some e) \<Rightarrow> (0, Some e))))"
proof (cases fault)
  case (Some m)
  then show ?thesis
    by (simp add: AuthenticateSession_def Redis_Get_def StringCmd_Int_def)
next
  case None
  show ?thesis
  proof (cases "live r (sessionRedisKey tok)")
    case lv: None
    show ?thesis using None lv
      by (simp add: AuthenticateSession_def Redis_Get_def StringCmd_Int_def)
  next
    case (Some x)
    show ?thesis
    proof (cases x)
      case (RSet s)
      then show ?thesis using None Some
        by (simp add: AuthenticateSession_def Redis_Get_def StringCmd_Int_def)
    next
      case (RString v)
      obtain n e where a: "Atoi v = (n, e)" by (cases "Atoi v")
      then have "e \<noteq> Some RedisNil" using Atoi_not_Nil [of v] by simp
      then show ?thesis using None Some RString a
        by (cases e) (simp_all add: AuthenticateSession_def Redis_Get_def StringCmd_Int_def)
    qed
  qed
qed

section \<open>What CreateSession leaves behind\<close>

lemma CreateSession_calls:
  "calls (snd (CreateSession (u, None) fw fs fa userId r)) =
     calls r @ (OnClient, CallWatch []) #
       (OnClient, CallSet (sessionRedisKey (UUID_String u)) (AUint userId) keyDuration) #
       (case fs of
          None \<Rightarrow> [(OnClient, CallSAdd (sessionInvertedIndexRedisKey userId) [AUUID u])]
        | Some m \<Rightarrow> [])"
proof (cases fs)
  case (Some m)
  then show ?thesis by (simp add: CreateSession_Set_fault)
next
  case None
  show ?thesis
  proof (cases fa)
    case (Some m)
    then show ?thesis using None by (simp add: CreateSession_SAdd_fault after_Set_simps)
  next
    case fa: None
    show ?thesis using None fa
      by (simp add: CreateSession_no_fault Let_def after_Set_simps
          split: option.splits prod.splits rval.splits)
  qed
qed

lemma CreateSession_record:
  "db (snd (CreateSession (u, None) fw None fa userId r)) (sessionRedisKey (UUID_String u)) =
     Some (RString (format_uint (unat userId)), Some (now r + 2592000000))"
proof (cases fa)
  case (Some m)
  then show ?thesis by (simp add: CreateSession_SAdd_fault after_Set_simps)
next
  case None
  then show ?thesis
    by (simp add: CreateSession_no_fault Let_def after_Set_simps
        split: option.splits prod.splits rval.splits)
qed

lemma CreateSession_now: "now (snd (CreateSession newV4 fw fs fa userId r)) = now r"
proof (cases newV4)
  case (Pair u ge)
  show ?thesis
  proof (cases ge)
    case (Some e)
    then show ?thesis using Pair by (simp add: CreateSession_def)
  next
    case ge: None
    show ?thesis
    proof (cases fs)
      case (Some m)
      then show ?thesis using Pair ge by (simp add: CreateSession_Set_fault)
    next
      case None
      show ?thesis
      proof (cases fa)
        case (Some m)
        then show ?thesis using Pair ge None by (simp add: CreateSession_SAdd_fault after_Set_simps)
      next
        case fa: None
        show ?thesis using Pair ge None fa
          by (simp add: CreateSession_no_fault Let_def after_Set_simps
              split: option.splits prod.splits rval.splits)
      qed
    qed
  qed
qed

lemma CreateSession_result:
  "fst (CreateSession (u, None) fw fs fa userId r) =
     (case fs of
        Some m \<Rightarrow> ([], Some (External m))
      | None \<Rightarrow>
          (case fa of
             Some m \<Rightarrow> ([], Some (External m))
           | None \<Rightarrow>
               (case live_entry r (sessionInvertedIndexRedisKey userId) of
                  None \<Rightarrow> (UUID_String u, None)
                | Some (RSet s, d) \<Rightarrow> (UUID_String u, None)
                | Some (RString v, d) \<Rightarrow> ([], Some WrongType))))"
proof (cases fs)
  case (Some m)
  then show ?thesis by (simp add: CreateSession_Set_fault)
next
  case None
  show ?thesis
  proof (cases fa)
    case (Some m)
    then show ?thesis using None by (simp add: CreateSession_SAdd_fault)
  next
    case fa: None
    show ?thesis using None fa
      by (simp add: CreateSession_no_fault Let_def split: option.splits prod.splits rval.splits)
  qed
qed

lemma CreateSession_index:
  "fst (CreateSession (u, None) fw fs fa userId r) = (t, None) \<Longrightarrow>
   db (snd (CreateSession (u, None) fw fs fa userId r)) (sessionInvertedIndexRedisKey userId) =
     Some (RSet (insert (UUID_MarshalBinary u)
                   (case live_entry r (sessionInvertedIndexRedisKey userId) of
                      Some (RSet s0, d) \<Rightarrow> s0 | _ \<Rightarrow> {})),
           case live_entry r (sessionInvertedIndexRedisKey userId) of
             None \<Rightarrow> None | Some (v, d) \<Rightarrow> d)"
proof -
  assume ok: "fst (CreateSession (u, None) fw fs fa userId r) = (t, None)"
  then have fs: "fs = None" and fa: "fa = None"
    by (auto simp: CreateSession_result split: option.splits)
  show ?thesis
  proof (cases "live_entry r (sessionInvertedIndexRedisKey userId)")
    case None
    then show ?thesis using fs fa by (simp add: CreateSession_no_fault Let_def)
  next
    case (Some en)
    obtain v d where en: "en = (v, d)" by (cases en)
    show ?thesis
    proof (cases v)
      case (RString x)
      then show ?thesis using ok fs fa Some en by (simp add: CreateSession_result)
    next
      case (RSet s)
      then show ?thesis using fs fa Some en by (simp add: CreateSession_no_fault Let_def)
    qed
  qed
qed

lemma CreateSession_success:
  assumes "CreateSession newV4 fw fs fa userId r = ((t, None), r')"
  shows "\<exists>u. newV4 = (u, None) \<and> t = UUID_String u \<and> fs = None"
proof -
  obtain u ge where nv: "newV4 = (u, ge)" by (cases newV4)
  have ge: "ge = None"
    using assms nv by (cases ge) (simp_all add: CreateSession_def)
  have "fst (CreateSession (u, None) fw fs fa userId r) = (t, None)"
    using assms nv ge by simp
  then have "t = UUID_String u \<and> fs = None"
    by (auto simp: CreateSession_result split: option.splits prod.splits rval.splits)
  then show ?thesis using nv ge by simp
qed

section \<open>The concrete inputs, evaluated\<close>

lemma uuid1_String: "UUID_String uuid1 = ''2c816d07-9499-4907-8ea3-1785dfa0f9a0''"
  by (simp add: uuid1_def UUID_String_def hex_Encode_def hex_byte_def hextable_def drop_bit_eq_div)

lemma format_42: "format_uint 42 = ''42''"
  by (simp add: format_uint.simps digit_char_def)

lemma live_entry_redis0: "live_entry redis0 k = None"
  by (simp add: live_entry_def redis0_def)

lemma redis1_eq:
  "redis1 = \<lparr>db = [sessionRedisKey (UUID_String uuid1) \<mapsto> (RString (format_uint 42), Some 2592000000),
                  sessionInvertedIndexRedisKey 42 \<mapsto> (RSet {UUID_MarshalBinary uuid1}, None)],
            now = 0,
            calls = [(OnClient, CallWatch []),
                     (OnClient, CallSet (sessionRedisKey (UUID_String uuid1)) (AUint 42) keyDuration),
                     (OnClient, CallSAdd (sessionInvertedIndexRedisKey 42) [AUUID uuid1])]\<rparr>"
  unfolding redis1_def CreateSession_no_fault Let_def live_entry_redis0
  by (simp add: after_Set_def issue_def redis0_def)

lemma create_42:
  "CreateSession (uuid1, None) None None None 42 redis0 = ((UUID_String uuid1, None), redis1)"
  by (simp add: redis1_def CreateSession_no_fault live_entry_redis0 Let_def)

lemma live_redis1_record:
  "live redis1 (sessionRedisKey (UUID_String uuid1)) = Some (RString (format_uint 42))"
  by (simp add: redis1_eq live_def live_entry_def)

lemma live_redis1_index:
  "live redis1 (sessionInvertedIndexRedisKey 42) = Some (RSet {UUID_MarshalBinary uuid1})"
  by (simp add: redis1_eq live_def live_entry_def)

lemma length_UUID_MarshalBinary: "length (UUID_MarshalBinary u) = length u"
  by (simp add: UUID_MarshalBinary_def)

lemma uuid1_forms_differ: "UUID_MarshalBinary uuid1 \<noteq> UUID_String uuid1"
proof
  assume "UUID_MarshalBinary uuid1 = UUID_String uuid1"
  then have "length (UUID_MarshalBinary uuid1) = length (UUID_String uuid1)" by simp
  then show False by (simp add: length_UUID_MarshalBinary uuid1_String) (simp add: uuid1_def)
qed

lemma uuid2_String: "UUID_String uuid2 = ''9f1c3e5a-7b2d-4c6e-8a90-b1d2e3f40516''"
  by (simp add: uuid2_def UUID_String_def hex_Encode_def hex_byte_def hextable_def drop_bit_eq_div)

lemma uuid1_bytes:
  "UUID_MarshalBinary uuid1 =
     [CHR 0x2C, CHR 0x81, CHR 0x6D, CHR 0x07, CHR 0x94, CHR 0x99, CHR 0x49, CHR 0x07,
      CHR 0x8E, CHR 0xA3, CHR 0x17, CHR 0x85, CHR 0xDF, CHR 0xA0, CHR 0xF9, CHR 0xA0]"
  by (simp add: UUID_MarshalBinary_def uuid1_def char_of_eq_iff)

lemma uuid2_bytes:
  "UUID_MarshalBinary uuid2 =
     [CHR 0x9F, CHR 0x1C, CHR 0x3E, CHR 0x5A, CHR 0x7B, CHR 0x2D, CHR 0x4C, CHR 0x6E,
      CHR 0x8A, CHR 0x90, CHR 0xB1, CHR 0xD2, CHR 0xE3, CHR 0xF4, CHR 0x05, CHR 0x16]"
  by (simp add: UUID_MarshalBinary_def uuid2_def char_of_eq_iff)

lemma key_42: "sessionInvertedIndexRedisKey 42 = ''user:42:session.keys''"
  by (simp add: sessionInvertedIndexRedisKey_def format_42)

lemma live_entry_redis1_index:
  "live_entry redis1 (sessionInvertedIndexRedisKey 42) = Some (RSet {UUID_MarshalBinary uuid1}, None)"
  by (simp add: redis1_eq live_entry_def)

lemma create_second:
  "CreateSession (uuid2, None) None None None 42 redis1 = ((UUID_String uuid2, None), redis2)"
  by (simp add: redis2_def CreateSession_no_fault live_entry_redis1_index Let_def)

section \<open>Errors of the session read\<close>

lemma Redis_Get_error:
  assumes "Redis_Get h fault key r = ((cmd, Some e), r1)" and "e \<noteq> RedisNil"
  shows "(\<exists>m. fault = Some m \<and> e = External m) \<or> (\<exists>s. fault = None \<and> live r key = Some (RSet s) \<and> e = WrongType)"
proof (cases fault)
  case (Some m)
  then show ?thesis using assms by (simp add: Redis_Get_def)
next
  case None
  show ?thesis
  proof (cases "live r key")
    case lv: None
    then show ?thesis using assms None by (simp add: Redis_Get_def)
  next
    case (Some x)
    then show ?thesis using assms None by (cases x) (simp_all add: Redis_Get_def)
  qed
qed

lemma Atoi_errors: "snd (Atoi s) \<noteq> Some ErrInvalidSessionToken"
  using Atoi_error_kinds [of s] by auto

section \<open>CreateSession on any store\<close>

text \<open>
  Below \<open>2^63\<close> the round trip holds: if CreateSession succeeds and returns the token
  \<open>t\<close>, then AuthenticateSession of \<open>t\<close> on the resulting store, at any moment before
  the 30 days have passed (\<open>d\<close> milliseconds later, \<open>d\<close> under 2592000000) and with the
  read going through, returns exactly that userId.
\<close>

lemma create_then_authenticate:
  assumes "CreateSession newV4 fw fs fa userId r = ((t, None), r')"
    and "unat userId < 2 ^ 63"
    and "d < 2592000000"
  shows "fst (AuthenticateSession None t (advance d r')) = (userId, None)"
proof -
  obtain u where u: "newV4 = (u, None)" "t = UUID_String u" "fs = None"
    using CreateSession_success [OF assms(1)] by blast
  have r': "r' = snd (CreateSession (u, None) fw None fa userId r)"
    using assms(1) u by simp
  have rec: "db r' (sessionRedisKey t) = Some (RString (format_uint (unat userId)), Some (now r + 2592000000))"
    unfolding r' u(2) by (rule CreateSession_record)
  have nw: "now r' = now r"
    unfolding r' by (rule CreateSession_now)
  have "live (advance d r') (sessionRedisKey t) = Some (RString (format_uint (unat userId)))"
    using rec nw assms(3) by (simp add: live_def live_entry_def advance_def)
  then show ?thesis
    using assms(2) by (simp add: AuthenticateSession_result Atoi_format_uint)
qed

lemma create_then_authenticate_example:
  "CreateSession (uuid1, None) None None None 42 redis0 = ((UUID_String uuid1, None), redis1) \<and>
   unat (42 :: uint) < 2 ^ 63 \<and> (1000 :: nat) < 2592000000 \<and>
   fst (AuthenticateSession None (UUID_String uuid1) (advance 1000 redis1)) = (42, None)"
proof -
  have a: "unat (42 :: uint) < 2 ^ 63" by simp
  have b: "(1000 :: nat) < 2592000000" by simp
  show ?thesis
    using create_then_authenticate [OF create_42 a b] create_42 by simp
qed

text \<open>
  What CreateSession does after a generated token, on any store. \<open>Set\<close> for the session
  record comes first, with the userId as value and a duration of exactly 30 days; \<open>SAdd\<close>
  on the user's index key follows only when \<open>Set\<close> did not fail; each is called once.
  After \<open>Set\<close> the record holds the userId's decimal text and expires 30 days from now.
  The call succeeds exactly when neither command fails and the index key does not hold a
  string. On success the set under the index key is the set that was there (empty if
  none) with one more member, the bytes of \<open>MarshalBinary()\<close> of the UUID, and \<open>SAdd\<close>
  gave it no deadline: a new entry has none, an existing one keeps its own. If \<open>Set\<close>
  fails, its error is returned with the empty string and the store's contents are
  untouched; if \<open>SAdd\<close> fails, its error is returned with the empty string.
\<close>

lemma CreateSession_two_writes:
  assumes "CreateSession (u, None) fw fs fa userId r = ((t, e), r')"
  shows "keyDuration = 30 * 24 * 3600 * 1000000000 \<and>
    calls r' = calls r @ (OnClient, CallWatch []) #
       (OnClient, CallSet (sessionRedisKey (UUID_String u)) (AUint userId) keyDuration) #
       (case fs of
          None \<Rightarrow> [(OnClient, CallSAdd (sessionInvertedIndexRedisKey userId) [AUUID u])]
        | Some m \<Rightarrow> []) \<and>
    (fs = None \<longrightarrow>
       db r' (sessionRedisKey (UUID_String u)) =
         Some (RString (format_uint (unat userId)), Some (now r + 30 * 24 * 3600 * 1000))) \<and>
    (e = None \<longleftrightarrow>
       fs = None \<and> fa = None \<and>
       (\<forall>v d. live_entry r (sessionInvertedIndexRedisKey userId) \<noteq> Some (RString v, d))) \<and>
    (e = None \<longrightarrow>
       t = UUID_String u \<and>
       db r' (sessionInvertedIndexRedisKey userId) =
         Some (RSet (insert (UUID_MarshalBinary u)
                       (case live_entry r (sessionInvertedIndexRedisKey userId) of
                          Some (RSet s0, d) \<Rightarrow> s0 | _ \<Rightarrow> {})),
               case live_entry r (sessionInvertedIndexRedisKey userId) of
                 None \<Rightarrow> None | Some (v, d) \<Rightarrow> d)) \<and>
    (\<forall>m. fs = Some m \<longrightarrow> t = [] \<and> e = Some (External m) \<and> db r' = db r) \<and>
    (\<forall>m. fs = None \<and> fa = Some m \<longrightarrow> t = [] \<and> e = Some (External m)) \<and>
    (e \<noteq> None \<longrightarrow> t = [])"
proof -
  have r': "r' = snd (CreateSession (u, None) fw fs fa userId r)"
    and te: "fst (CreateSession (u, None) fw fs fa userId r) = (t, e)"
    using assms by simp_all
  have 1: "keyDuration = 30 * 24 * 3600 * 1000000000"
    by (simp add: keyDuration_def Hour_def Second_def Millisecond_def)
  have 2: "calls r' = calls r @ (OnClient, CallWatch []) #
       (OnClient, CallSet (sessionRedisKey (UUID_String u)) (AUint userId) keyDuration) #
       (case fs of
          None \<Rightarrow> [(OnClient, CallSAdd (sessionInvertedIndexRedisKey userId) [AUUID u])]
        | Some m \<Rightarrow> [])"
    unfolding r' by (rule CreateSession_calls)
  have 3: "fs = None \<longrightarrow>
       db r' (sessionRedisKey (UUID_String u)) =
         Some (RString (format_uint (unat userId)), Some (now r + 30 * 24 * 3600 * 1000))"
    unfolding r' using CreateSession_record [of u fw fa userId r] by simp
  have 4: "e = None \<longleftrightarrow>
       fs = None \<and> fa = None \<and>
       (\<forall>v d. live_entry r (sessionInvertedIndexRedisKey userId) \<noteq> Some (RString v, d))"
    using te by (auto simp: CreateSession_result split: option.splits prod.splits rval.splits)
  have 5: "e = None \<longrightarrow>
       t = UUID_String u \<and>
       db r' (sessionInvertedIndexRedisKey userId) =
         Some (RSet (insert (UUID_MarshalBinary u)
                       (case live_entry r (sessionInvertedIndexRedisKey userId) of
                          Some (RSet s0, d) \<Rightarrow> s0 | _ \<Rightarrow> {})),
               case live_entry r (sessionInvertedIndexRedisKey userId) of
                 None \<Rightarrow> None | Some (v, d) \<Rightarrow> d)"
  proof
    assume e: "e = None"
    then have ok: "fst (CreateSession (u, None) fw fs fa userId r) = (t, None)"
      using te by simp
    then have "t = UUID_String u"
      by (auto simp: CreateSession_result split: option.splits prod.splits rval.splits)
    then show "t = UUID_String u \<and>
       db r' (sessionInvertedIndexRedisKey userId) =
         Some (RSet (insert (UUID_MarshalBinary u)
                       (case live_entry r (sessionInvertedIndexRedisKey userId) of
                          Some (RSet s0, d) \<Rightarrow> s0 | _ \<Rightarrow> {})),
               case live_entry r (sessionInvertedIndexRedisKey userId) of
                 None \<Rightarrow> None | Some (v, d) \<Rightarrow> d)"
      unfolding r' using CreateSession_index [OF ok] by simp
  qed
  have 6: "\<forall>m. fs = Some m \<longrightarrow> t = [] \<and> e = Some (External m) \<and> db r' = db r"
    using assms by (auto simp: CreateSession_Set_fault)
  have 7: "\<forall>m. fs = None \<and> fa = Some m \<longrightarrow> t = [] \<and> e = Some (External m)"
    using assms by (auto simp: CreateSession_SAdd_fault)
  have 8: "e \<noteq> None \<longrightarrow> t = []"
    using te by (auto simp: CreateSession_result split: option.splits prod.splits rval.splits)
  from 1 2 3 4 5 6 7 8 show ?thesis by blast
qed

section \<open>The claims\<close>

text \<open>
  C10. If token generation fails, CreateSession returns the empty string and the
  generation error, and the store is exactly as it was: no command was issued, so
  neither a session record nor an index entry was touched.
\<close>

theorem CreateSession_generation_failure:
  "CreateSession (sessionKey, Some e) fw fs fa userId r = (([], Some e), r)"
  by (simp add: CreateSession_def)

text \<open>
  C1. The claim: after a successful CreateSession of a userId, AuthenticateSession of the
  returned token returns that userId. The code at userId \<open>2^63\<close> = 9223372036854775808 on
  the empty store: CreateSession succeeds and the record holds the decimal text of the
  userId, but AuthenticateSession reads it with \<open>Int()\<close> into a Go \<open>int\<close>, which cannot
  hold it, and returns 0 with a range error.
\<close>

theorem create_then_authenticate_uint_range:
  "fst (CreateSession (uuid1, None) None None None 0x8000000000000000 redis0) = (UUID_String uuid1, None) \<and>
   fst (AuthenticateSession None (UUID_String uuid1)
          (snd (CreateSession (uuid1, None) None None None 0x8000000000000000 redis0))) = (0, Some ErrRange)"
proof -
  let ?r = "snd (CreateSession (uuid1, None) None None None 0x8000000000000000 redis0)"
  have u: "unat (0x8000000000000000 :: 64 word) = 2 ^ 63" by simp
  have "db ?r (sessionRedisKey (UUID_String uuid1)) = Some (RString (format_uint (2 ^ 63)), Some 2592000000)"
    by (simp add: CreateSession_no_fault live_entry_redis0 Let_def after_Set_simps u) (simp add: redis0_def)
  moreover have "now ?r = 0"
    by (simp add: CreateSession_no_fault live_entry_redis0 Let_def after_Set_simps) (simp add: redis0_def)
  ultimately have "live ?r (sessionRedisKey (UUID_String uuid1)) = Some (RString (format_uint (2 ^ 63)))"
    by (simp add: live_def live_entry_def)
  then show ?thesis
    by (simp add: CreateSession_no_fault live_entry_redis0 Let_def AuthenticateSession_result Atoi_format_uint)
qed

text \<open>
  C2. The claim: after InvalidateSessions of a user with a session, the user's tokens are
  refused and neither record nor index entry remains. The code at user 42 holding one
  session (token \<open>uuid1\<close>, store \<open>redis1\<close>): InvalidateSessions returns an error, the
  record and the index entry are still there, and the token still authenticates as 42.
\<close>

theorem invalidate_leaves_session_valid:
  "fst (CreateSession (uuid1, None) None None None 42 redis0) = (UUID_String uuid1, None) \<and>
   redis1 = snd (CreateSession (uuid1, None) None None None 42 redis0) \<and>
   fst (AuthenticateSession None (UUID_String uuid1) redis1) = (42, None) \<and>
   fst (InvalidateSessions None None 42 redis1) = Some CantMarshal \<and>
   fst (AuthenticateSession None (UUID_String uuid1) (snd (InvalidateSessions None None 42 redis1))) = (42, None) \<and>
   db (snd (InvalidateSessions None None 42 redis1)) (sessionRedisKey (UUID_String uuid1)) =
     Some (RString ''42'', Some 2592000000) \<and>
   db (snd (InvalidateSessions None None 42 redis1)) (sessionInvertedIndexRedisKey 42) =
     Some (RSet {UUID_MarshalBinary uuid1}, None)"
proof -
  have "db redis1 (sessionRedisKey (UUID_String uuid1)) = Some (RString ''42'', Some 2592000000)"
    by (simp add: redis1_eq format_42)
  moreover have "db redis1 (sessionInvertedIndexRedisKey 42) = Some (RSet {UUID_MarshalBinary uuid1}, None)"
    by (simp add: redis1_eq)
  ultimately show ?thesis
    using live_redis1_record
    by (simp add: create_42 InvalidateSessions_closed AuthenticateSession_result Atoi_format_uint)
qed

text \<open>
  C3. The claim: InvalidateSessions of a user without an index entry succeeds. The code at
  user 42 on the empty store: the GetSet call is the only call made and its error is
  returned. The last conjunct is GETSET itself on that absent key with a value the client
  can send: the client reports \<open>redis.Nil\<close>, which is an error to \<open>.Err()\<close> as well.
\<close>

theorem invalidate_without_sessions_fails:
  "live redis0 (sessionInvertedIndexRedisKey 42) = None \<and>
   InvalidateSessions None None 42 redis0 =
     (Some CantMarshal,
      redis0\<lparr>calls := [(OnClient, CallGetSet (sessionInvertedIndexRedisKey 42) (APtrStrings []))]\<rparr>) \<and>
   fst (Redis_GetSet OnClient None (sessionInvertedIndexRedisKey 42) (AString []) redis0) = ([], Some RedisNil)"
proof -
  have l: "live redis0 (sessionInvertedIndexRedisKey 42) = None"
    by (simp add: live_def live_entry_redis0)
  show ?thesis
    using l by (simp add: InvalidateSessions_closed Redis_GetSet_absent) (simp add: issue_def redis0_def)
qed

text \<open>
  C4. The claim: AuthenticateUser returns UserNotFound when the directory finds no user.
  The code: when the lookup returns no user and the error UserNotFound, the error is only
  logged; the result is whatever ComparePassword on the nil user gives. With a
  ComparePassword that dereferences its receiver, AuthenticateUser panics.
\<close>

theorem AuthenticateUser_lookup_error_ignored:
  "AuthenticateUser (\<lambda>ident. (None, Some ErrUserNotFound)) comparePassword authUser =
     (case comparePassword None (Password authUser) of
        Panics \<Rightarrow> Panics
      | Returns (passwordMatch, Some e) \<Rightarrow> Returns (None, Some e)
      | Returns (passwordMatch, None) \<Rightarrow>
          if passwordMatch then Returns (None, None) else Returns (None, Some ErrWrongPassword))
   \<and> AuthenticateUser (\<lambda>ident. (None, Some ErrUserNotFound))
        (\<lambda>user password. case user of None \<Rightarrow> Panics | Some (stored :: string) \<Rightarrow> Returns (password = stored, None))
        \<lparr>UsernameOrEmail = ''nobody'', Password = ''secret''\<rparr> = Panics"
  by (simp add: AuthenticateUser_def split: outcome.splits prod.splits option.splits)

text \<open>
  C5. For a token whose session record is absent (no entry under its key, or an entry
  whose deadline has passed), AuthenticateSession returns InvalidSessionToken. Every
  other error of the store read, that is every error of \<open>Get\<close> but \<open>redis.Nil\<close>, is
  returned as it is and differs from InvalidSessionToken. InvalidSessionToken is returned
  exactly when the read went through and found no live record.
\<close>

theorem AuthenticateSession_absent_or_failing:
  "(db r (sessionRedisKey token) = None \<longrightarrow>
      fst (AuthenticateSession None token r) = (0, Some ErrInvalidSessionToken)) \<and>
   (\<forall>v dl. db r (sessionRedisKey token) = Some (v, Some dl) \<and> dl \<le> now r \<longrightarrow>
      fst (AuthenticateSession None token r) = (0, Some ErrInvalidSessionToken)) \<and>
   (\<forall>cmd e r1. Redis_Get OnClient fault (sessionRedisKey token) r = ((cmd, Some e), r1) \<and> e \<noteq> RedisNil \<longrightarrow>
      fst (AuthenticateSession fault token r) = (0, Some e) \<and> e \<noteq> ErrInvalidSessionToken) \<and>
   (fst (AuthenticateSession fault token r) = (0, Some ErrInvalidSessionToken) \<longleftrightarrow>
      fault = None \<and> live r (sessionRedisKey token) = None)"
proof (intro conjI allI impI)
  assume "db r (sessionRedisKey token) = None"
  then have "live r (sessionRedisKey token) = None"
    by (simp add: live_def live_entry_def)
  then show "fst (AuthenticateSession None token r) = (0, Some ErrInvalidSessionToken)"
    by (simp add: AuthenticateSession_result)
next
  fix v dl
  assume "db r (sessionRedisKey token) = Some (v, Some dl) \<and> dl \<le> now r"
  then have "live r (sessionRedisKey token) = None"
    by (simp add: live_def live_entry_def)
  then show "fst (AuthenticateSession None token r) = (0, Some ErrInvalidSessionToken)"
    by (simp add: AuthenticateSession_result)
next
  fix cmd e r1
  assume a: "Redis_Get OnClient fault (sessionRedisKey token) r = ((cmd, Some e), r1) \<and> e \<noteq> RedisNil"
  then have c: "(\<exists>m. fault = Some m \<and> e = External m) \<or>
      (\<exists>s. fault = None \<and> live r (sessionRedisKey token) = Some (RSet s) \<and> e = WrongType)"
    using Redis_Get_error by blast
  then show "fst (AuthenticateSession fault token r) = (0, Some e)"
    by (auto simp: AuthenticateSession_result)
  from c show "e \<noteq> ErrInvalidSessionToken" by auto
next
  show "fst (AuthenticateSession fault token r) = (0, Some ErrInvalidSessionToken) \<longleftrightarrow>
      fault = None \<and> live r (sessionRedisKey token) = None"
  proof (cases fault)
    case (Some m)
    then show ?thesis by (simp add: AuthenticateSession_result)
  next
    case None
    show ?thesis
    proof (cases "live r (sessionRedisKey token)")
      case lv: None
      then show ?thesis using None by (simp add: AuthenticateSession_result)
    next
      case (Some x)
      show ?thesis
      proof (cases x)
        case (RSet s)
        then show ?thesis using None Some by (simp add: AuthenticateSession_result)
      next
        case (RString v)
        obtain n e where a: "Atoi v = (n, e)" by (cases "Atoi v")
        then have "e \<noteq> Some ErrInvalidSessionToken" using Atoi_errors [of v] by simp
        then show ?thesis using None Some RString a
          by (cases e) (simp_all add: AuthenticateSession_result)
      qed
    qed
  qed
qed

theorem AuthenticateSession_absent_or_failing_witness:
  "db redis0 (sessionRedisKey ''never-issued'') = None \<and>
   fst (AuthenticateSession None ''never-issued'' redis0) = (0, Some ErrInvalidSessionToken) \<and>
   db (advance 2592000000 redis1) (sessionRedisKey (UUID_String uuid1)) = Some (RString ''42'', Some 2592000000) \<and>
   2592000000 \<le> now (advance 2592000000 redis1) \<and>
   fst (AuthenticateSession None (UUID_String uuid1) (advance 2592000000 redis1)) = (0, Some ErrInvalidSessionToken) \<and>
   fst (Redis_Get OnClient (Some ''timeout'') (sessionRedisKey (UUID_String uuid1)) redis1) = ([], Some (External ''timeout'')) \<and>
   External ''timeout'' \<noteq> RedisNil \<and>
   fst (AuthenticateSession (Some ''timeout'') (UUID_String uuid1) redis1) = (0, Some (External ''timeout''))"
proof -
  have a: "db redis0 (sessionRedisKey ''never-issued'') = None"
    by (simp add: redis0_def)
  have b: "db (advance 2592000000 redis1) (sessionRedisKey (UUID_String uuid1)) = Some (RString ''42'', Some 2592000000)
      \<and> 2592000000 \<le> now (advance 2592000000 redis1)"
    by (simp add: advance_def redis1_eq format_42)
  have c: "Redis_Get OnClient (Some ''timeout'') (sessionRedisKey (UUID_String uuid1)) redis1 =
      (([], Some (External ''timeout'')), issue OnClient (CallGet (sessionRedisKey (UUID_String uuid1))) redis1)
      \<and> External ''timeout'' \<noteq> RedisNil"
    by (simp add: Redis_Get_def)
  from AuthenticateSession_absent_or_failing [of redis0 "''never-issued''" None] a
  have 1: "fst (AuthenticateSession None ''never-issued'' redis0) = (0, Some ErrInvalidSessionToken)"
    by blast
  from AuthenticateSession_absent_or_failing [of "advance 2592000000 redis1" "UUID_String uuid1" None] b
  have 2: "fst (AuthenticateSession None (UUID_String uuid1) (advance 2592000000 redis1)) = (0, Some ErrInvalidSessionToken)"
    by blast
  from AuthenticateSession_absent_or_failing [of redis1 "UUID_String uuid1" "Some ''timeout''"] c
  have 3: "fst (AuthenticateSession (Some ''timeout'') (UUID_String uuid1) redis1) = (0, Some (External ''timeout''))"
    by blast
  show ?thesis using a b c 1 2 3 by simp
qed

text \<open>
  C6. The claim: the member stored in the user's index entry is the textual token of the
  primary key. The code at user 42 and \<open>uuid1\<close>: the primary key is built from the text
  2c816d07-9499-4907-8ea3-1785dfa0f9a0, while the one member of the set under
  user:42:session.keys is the 16 raw bytes of the UUID, since \<open>SAdd\<close> is given the
  \<open>uuid.UUID\<close> and not its \<open>String()\<close>.
\<close>

theorem index_member_is_binary_uuid:
  "fst (CreateSession (uuid1, None) None None None 42 redis0) = (''2c816d07-9499-4907-8ea3-1785dfa0f9a0'', None) \<and>
   redis1 = snd (CreateSession (uuid1, None) None None None 42 redis0) \<and>
   sessionRedisKey ''2c816d07-9499-4907-8ea3-1785dfa0f9a0'' = ''session:2c816d07-9499-4907-8ea3-1785dfa0f9a0:user.id'' \<and>
   db redis1 ''session:2c816d07-9499-4907-8ea3-1785dfa0f9a0:user.id'' = Some (RString ''42'', Some 2592000000) \<and>
   sessionInvertedIndexRedisKey 42 = ''user:42:session.keys'' \<and>
   db redis1 ''user:42:session.keys'' = Some (RSet {UUID_MarshalBinary uuid1}, None) \<and>
   length (UUID_MarshalBinary uuid1) = 16 \<and>
   UUID_MarshalBinary uuid1 \<noteq> ''2c816d07-9499-4907-8ea3-1785dfa0f9a0''"
proof -
  have k: "sessionRedisKey (UUID_String uuid1) = ''session:2c816d07-9499-4907-8ea3-1785dfa0f9a0:user.id''"
    by (simp add: uuid1_String sessionRedisKey_def)
  have i: "sessionInvertedIndexRedisKey 42 = ''user:42:session.keys''"
    by (simp add: sessionInvertedIndexRedisKey_def format_42)
  have a: "db redis1 (sessionRedisKey (UUID_String uuid1)) = Some (RString ''42'', Some 2592000000)"
    by (simp add: redis1_eq format_42)
  have b: "db redis1 (sessionInvertedIndexRedisKey 42) = Some (RSet {UUID_MarshalBinary uuid1}, None)"
    by (simp add: redis1_eq)
  have l: "length (UUID_MarshalBinary uuid1) = 16"
    by (simp add: length_UUID_MarshalBinary uuid1_def)
  show ?thesis
    using a b l uuid1_forms_differ create_42
    unfolding k i uuid1_String by (simp add: sessionRedisKey_def)
qed

text \<open>
  C7. The claim: CreateSession writes the session record with a TTL of exactly 30 days,
  then adds the token to the user's index entry with no TTL; a failing write returns an
  error and is not retried. The code at user 42, already holding the session of \<open>uuid1\<close>
  (store \<open>redis1\<close>), with the new UUID \<open>uuid2\<close>: \<open>Set\<close> and then \<open>SAdd\<close> are called once
  each, the record expires after 30 days, the index entry has no deadline, and a failing
  \<open>Set\<close> or \<open>SAdd\<close> returns its error with no further call. But what \<open>SAdd\<close> adds to the
  set is the 16 raw bytes of the UUID: the set holds the bytes of both UUIDs, and the
  token 9f1c3e5a-7b2d-4c6e-8a90-b1d2e3f40516 that is returned is not a member.
\<close>

theorem second_session_adds_bytes_not_token:
  "CreateSession (uuid2, None) None None None 42 redis1 =
     ((''9f1c3e5a-7b2d-4c6e-8a90-b1d2e3f40516'', None), redis2) \<and>
   calls redis2 = calls redis1 @
     [(OnClient, CallWatch []),
      (OnClient, CallSet ''session:9f1c3e5a-7b2d-4c6e-8a90-b1d2e3f40516:user.id'' (AUint 42)
                   (30 * 24 * 3600 * 1000000000)),
      (OnClient, CallSAdd ''user:42:session.keys'' [AUUID uuid2])] \<and>
   db redis2 ''session:9f1c3e5a-7b2d-4c6e-8a90-b1d2e3f40516:user.id'' =
     Some (RString ''42'', Some (30 * 24 * 3600 * 1000)) \<and>
   db redis2 ''user:42:session.keys'' =
     Some (RSet {[CHR 0x9F, CHR 0x1C, CHR 0x3E, CHR 0x5A, CHR 0x7B, CHR 0x2D, CHR 0x4C, CHR 0x6E,
                  CHR 0x8A, CHR 0x90, CHR 0xB1, CHR 0xD2, CHR 0xE3, CHR 0xF4, CHR 0x05, CHR 0x16],
                 [CHR 0x2C, CHR 0x81, CHR 0x6D, CHR 0x07, CHR 0x94, CHR 0x99, CHR 0x49, CHR 0x07,
                  CHR 0x8E, CHR 0xA3, CHR 0x17, CHR 0x85, CHR 0xDF, CHR 0xA0, CHR 0xF9, CHR 0xA0]},
           None) \<and>
   ''9f1c3e5a-7b2d-4c6e-8a90-b1d2e3f40516'' \<notin>
     {[CHR 0x9F, CHR 0x1C, CHR 0x3E, CHR 0x5A, CHR 0x7B, CHR 0x2D, CHR 0x4C, CHR 0x6E,
       CHR 0x8A, CHR 0x90, CHR 0xB1, CHR 0xD2, CHR 0xE3, CHR 0xF4, CHR 0x05, CHR 0x16],
      [CHR 0x2C, CHR 0x81, CHR 0x6D, CHR 0x07, CHR 0x94, CHR 0x99, CHR 0x49, CHR 0x07,
       CHR 0x8E, CHR 0xA3, CHR 0x17, CHR 0x85, CHR 0xDF, CHR 0xA0, CHR 0xF9, CHR 0xA0]} \<and>
   CreateSession (uuid2, None) None (Some ''timeout'') None 42 redis1 =
     (([], Some (External ''timeout'')),
      redis1\<lparr>calls := calls redis1 @
        [(OnClient, CallWatch []),
         (OnClient, CallSet ''session:9f1c3e5a-7b2d-4c6e-8a90-b1d2e3f40516:user.id'' (AUint 42)
                      (30 * 24 * 3600 * 1000000000))]\<rparr>) \<and>
   fst (CreateSession (uuid2, None) None None (Some ''timeout'') 42 redis1) =
     ([], Some (External ''timeout'')) \<and>
   calls (snd (CreateSession (uuid2, None) None None (Some ''timeout'') 42 redis1)) = calls redis2"
proof -
  let ?s = "CreateSession (uuid2, None) None (Some ''timeout'') None 42 redis1"
  let ?a = "CreateSession (uuid2, None) None None (Some ''timeout'') 42 redis1"
  have kd: "keyDuration = 30 * 24 * 3600 * 1000000000"
    by (simp add: keyDuration_def Hour_def Second_def Millisecond_def)
  have a: "?a = ((fst (fst ?a), snd (fst ?a)), snd ?a)" by simp
  have n1: "now redis1 = 0" by (simp add: redis1_eq)
  from CreateSession_two_writes [OF create_second]
  have ok: "calls redis2 = calls redis1 @
       [(OnClient, CallWatch []),
        (OnClient, CallSet (sessionRedisKey (UUID_String uuid2)) (AUint 42) keyDuration),
        (OnClient, CallSAdd (sessionInvertedIndexRedisKey 42) [AUUID uuid2])]"
    and rec: "db redis2 (sessionRedisKey (UUID_String uuid2)) = Some (RString ''42'', Some (30 * 24 * 3600 * 1000))"
    and idx: "db redis2 (sessionInvertedIndexRedisKey 42) =
       Some (RSet {UUID_MarshalBinary uuid2, UUID_MarshalBinary uuid1}, None)"
    by (simp_all add: live_entry_redis1_index format_42 n1)
  have s: "?s = (([], Some (External ''timeout'')),
      redis1\<lparr>calls := calls redis1 @
        [(OnClient, CallWatch []),
         (OnClient, CallSet (sessionRedisKey (UUID_String uuid2)) (AUint 42) keyDuration)]\<rparr>)"
    by (simp add: CreateSession_Set_fault issue_def)
  from CreateSession_two_writes [OF a]
  have af: "fst ?a = ([], Some (External ''timeout''))" and ac: "calls (snd ?a) = calls redis2"
    using ok by (simp_all add: prod_eq_iff)
  show ?thesis
    using create_second ok rec idx s af ac
    unfolding kd key_42 uuid2_String uuid1_bytes uuid2_bytes
    by (simp add: sessionRedisKey_def)
qed

text \<open>
  C8. The claim: the two writes run inside a watch-and-commit transaction that watches the
  token's primary key. The code: \<open>Watch\<close> is called with an empty list of keys, and \<open>Set\<close>
  and \<open>SAdd\<close> are called on the client, not on the transaction handle. No WATCH command
  is sent, so the outcome does not depend on whether one would fail.
\<close>

theorem CreateSession_watches_nothing:
  "calls (snd (CreateSession (u, None) fw fs fa userId r)) =
     calls r @ (OnClient, CallWatch []) #
       (OnClient, CallSet (sessionRedisKey (UUID_String u)) (AUint userId) keyDuration) #
       (case fs of
          None \<Rightarrow> [(OnClient, CallSAdd (sessionInvertedIndexRedisKey userId) [AUUID u])]
        | Some m \<Rightarrow> [])
   \<and> CreateSession newV4 fw fs fa userId r = CreateSession newV4 None fs fa userId r"
proof
  show "calls (snd (CreateSession (u, None) fw fs fa userId r)) =
     calls r @ (OnClient, CallWatch []) #
       (OnClient, CallSet (sessionRedisKey (UUID_String u)) (AUint userId) keyDuration) #
       (case fs of
          None \<Rightarrow> [(OnClient, CallSAdd (sessionInvertedIndexRedisKey userId) [AUUID u])]
        | Some m \<Rightarrow> [])"
    by (rule CreateSession_calls)
  have w: "Redis_Watch f fn [] r = fn OnTx (issue OnClient (CallWatch []) r)" for f fn
    by (simp add: Redis_Watch_def)
  show "CreateSession newV4 fw fs fa userId r = CreateSession newV4 None fs fa userId r"
    unfolding CreateSession_def w by (rule refl)
qed

text \<open>
  C9, as amended. InvalidateSessions makes one call, \<open>GetSet\<close> on the user's index key
  with a pointer to its empty local slice as the new value, and returns that call's
  error: the connection's, or else the client's refusal to marshal the pointer. The
  slice is never filled from the stored set, no DEL follows, and the store's contents
  are as before.
\<close>

theorem InvalidateSessions_getset_fails:
  "InvalidateSessions fg fd userId r =
     (Some (case fg of Some m \<Rightarrow> External m | None \<Rightarrow> CantMarshal),
      r\<lparr>calls := calls r @ [(OnClient, CallGetSet (sessionInvertedIndexRedisKey userId) (APtrStrings []))]\<rparr>)"
  by (simp add: InvalidateSessions_closed issue_def)

text \<open>
  C9 as stated says the GETSET writes a new value under the index key. It does not:
  after InvalidateSessions the index entry of user 42 in \<open>redis1\<close> is the same set, and
  on the empty store the key is still absent.
\<close>

theorem InvalidateSessions_writes_nothing:
  "db redis1 (sessionInvertedIndexRedisKey 42) = Some (RSet {UUID_MarshalBinary uuid1}, None) \<and>
   db (snd (InvalidateSessions None None 42 redis1)) (sessionInvertedIndexRedisKey 42) =
     Some (RSet {UUID_MarshalBinary uuid1}, None) \<and>
   db (snd (InvalidateSessions None None 42 redis0)) (sessionInvertedIndexRedisKey 42) = None"
  by (simp add: InvalidateSessions_closed redis1_eq) (simp add: redis0_def)

end
